theory Spec2Isabelle
  imports Main "HOL-Library.Sublist"
begin

section \<open>The Pea and Pod factories of jina/peapods/__init__.py\<close>

text \<open>
  The two factory functions \<^verbatim>\<open>Pea\<close> and \<^verbatim>\<open>Pod\<close> choose which class to
  instantiate from the \<^verbatim>\<open>host\<close> and \<^verbatim>\<open>image\<close> attributes of their
  argument, after resetting \<^verbatim>\<open>host\<close> to \<^verbatim>\<open>__default_host__\<close> when
  \<^verbatim>\<open>allow_remote\<close> is false. Both assign to attributes of the objects they are
  given and log through \<^verbatim>\<open>default_logger\<close>, so the model passes a state: a heap of
  \<^verbatim>\<open>argparse.Namespace\<close> objects, addressed by reference, and the list of warnings
  logged so far.
\<close>

subsection \<open>Data\<close>

text \<open>
  An \<^verbatim>\<open>argparse.Namespace\<close>: the two attributes the factories read, and every other
  attribute as one value of an arbitrary type. \<^verbatim>\<open>image\<close> is \<^verbatim>\<open>None\<close> or a
  string.
\<close>

record 'x namespace =
  host :: string
  image' :: "string option"
  extra :: 'x

type_synonym ref = nat

text \<open>Every reference denotes an object: Python has no dangling references.\<close>

record 'x state =
  heap :: "ref \<Rightarrow> 'x namespace"
  logged :: "string list"

text \<open>
  The values of the dictionary \<^verbatim>\<open>Pod\<close> accepts: \<^verbatim>\<open>None\<close>, one namespace or a
  list of namespaces. The dictionary itself keeps its insertion order.
\<close>

datatype dict_value = PyNone | Obj ref | PyList "ref list"

type_synonym dict = "(string \<times> dict_value) list"

datatype pod_args = Namespace ref | Dict dict

text \<open>
  The classes the factories instantiate, each with the \<^verbatim>\<open>args\<close> it is given.
  What a constructor does with them is not part of the factories. \<^verbatim>\<open>RemotePod\<close>
  is not among them: \<^verbatim>\<open>Pod\<close> names it, but the module imports only
  \<^verbatim>\<open>RemotePea\<close> and \<^verbatim>\<open>RemoteMutablePod\<close> from
  \<^verbatim>\<open>jina.peapods.remote\<close>, so the name is unbound when it is reached.
\<close>

datatype handle =
    BasePea ref
  | ContainerPea ref
  | RemotePea ref
  | BasePod ref
  | MutablePod dict
  | RemoteMutablePod dict

text \<open>
  The exceptions the factories raise: \<^verbatim>\<open>AttributeError\<close> when \<^verbatim>\<open>host\<close>
  is read from a \<^verbatim>\<open>dict\<close>, and \<^verbatim>\<open>NameError\<close> when the unbound name
  \<^verbatim>\<open>RemotePod\<close> is evaluated.
\<close>

datatype error = AttributeError | NameError

subsection \<open>Statements\<close>

text \<open>\<^verbatim>\<open>args.host = h\<close> on the object at \<open>r\<close>.\<close>

definition setattr_host :: "ref \<Rightarrow> string \<Rightarrow> 'x state \<Rightarrow> 'x state" where
  "setattr_host r h s = s\<lparr>heap := (heap s)(r := (heap s r)\<lparr>host := h\<rparr>)\<rparr>"

text \<open>\<^verbatim>\<open>default_logger.warning(msg)\<close>.\<close>

definition warning :: "string \<Rightarrow> 'x state \<Rightarrow> 'x state" where
  "warning msg s = s\<lparr>logged := logged s @ [msg]\<rparr>"

text \<open>The two f-strings, with \<^verbatim>\<open>__default_host__\<close> substituted.\<close>

definition Pea_message :: "string \<Rightarrow> string" where
  "Pea_message default_host =
     ''setting host to '' @ default_host @ '' as allow_remote set to False''"

definition Pod_message :: "string \<Rightarrow> string" where
  "Pod_message default_host =
     ''host is reset to '' @ default_host @ '' as allow_remote=False''"

text \<open>Truth value of \<^verbatim>\<open>args.image\<close>: \<^verbatim>\<open>None\<close> and the empty string are false.\<close>

fun truthy :: "string option \<Rightarrow> bool" where
  "truthy None = False"
| "truthy (Some img) = (img \<noteq> [])"

text \<open>
  Truth value of a dictionary value (\<^verbatim>\<open>if k:\<close>): \<^verbatim>\<open>None\<close> and the empty list are
  false, a namespace is true.
\<close>

fun truthy_value :: "dict_value \<Rightarrow> bool" where
  "truthy_value PyNone = False"
| "truthy_value (Obj r) = True"
| "truthy_value (PyList l) = (l \<noteq> [])"

text \<open>\<^verbatim>\<open>if not isinstance(k, list): k = [k]\<close>, reached for true values only.\<close>

fun as_list :: "dict_value \<Rightarrow> ref list" where
  "as_list (PyList l) = l"
| "as_list (Obj r) = [r]"
| "as_list PyNone = []"

subsection \<open>Pea\<close>

text \<open>
  \<open>default_host\<close> is \<^verbatim>\<open>__default_host__\<close>, imported from the package and not part
  of this file; \<open>parsed\<close> is the namespace \<^verbatim>\<open>get_parsed_args\<close> builds from the keyword
  arguments when \<^verbatim>\<open>args\<close> is \<^verbatim>\<open>None\<close>.
\<close>

definition Pea :: "string \<Rightarrow> ref \<Rightarrow> ref option \<Rightarrow> bool \<Rightarrow> 'x state \<Rightarrow> handle \<times> 'x state" where
  "Pea default_host parsed args allow_remote s =
     (let a = (case args of None \<Rightarrow> parsed | Some r \<Rightarrow> r);
          s1 = (if \<not> allow_remote then
                  (if host (heap s a) \<noteq> default_host
                   then warning (Pea_message default_host) (setattr_host a default_host s)
                   else s)
                else s)
      in if host (heap s1 a) \<noteq> default_host then (RemotePea a, s1)
         else if truthy (image' (heap s1 a)) then (ContainerPea a, s1)
         else (BasePea a, s1))"

subsection \<open>Pod\<close>

text \<open>The inner loop \<^verbatim>\<open>for kk in k\<close>, carrying the state and the set \<^verbatim>\<open>hosts\<close>.\<close>

fun for_kk :: "string \<Rightarrow> bool \<Rightarrow> ref list \<Rightarrow> 'x state \<times> string set \<Rightarrow> 'x state \<times> string set" where
  "for_kk default_host allow_remote [] (s, hosts) = (s, hosts)"
| "for_kk default_host allow_remote (kk # k) (s, hosts) =
     (let s1 = (if \<not> allow_remote \<and> host (heap s kk) \<noteq> default_host
                then warning (Pod_message default_host) (setattr_host kk default_host s)
                else s)
      in for_kk default_host allow_remote k (s1, insert (host (heap s1 kk)) hosts))"

text \<open>The outer loop \<^verbatim>\<open>for k in args.values()\<close>.\<close>

fun for_k :: "string \<Rightarrow> bool \<Rightarrow> dict_value list \<Rightarrow> 'x state \<times> string set \<Rightarrow> 'x state \<times> string set" where
  "for_k default_host allow_remote [] acc = acc"
| "for_k default_host allow_remote (k # ks) acc =
     for_k default_host allow_remote ks
       (if truthy_value k then for_kk default_host allow_remote (as_list k) acc else acc)"

text \<open>
  The branch \<^verbatim>\<open>if isinstance(args, dict):\<close>. It returns a pod when exactly one host
  was collected, and otherwise falls through to the code after it (\<open>None\<close>).
\<close>

definition Pod_dict :: "string \<Rightarrow> bool \<Rightarrow> dict \<Rightarrow> 'x state \<Rightarrow> handle option \<times> 'x state" where
  "Pod_dict default_host allow_remote d s =
     (let (s1, hosts) = for_k default_host allow_remote (map snd d) (s, {})
      in if card hosts = 1 then
           (if default_host \<in> hosts then (Some (MutablePod d), s1)
            else (Some (RemoteMutablePod d), s1))
         else (None, s1))"

text \<open>
  The code after the dictionary branch. It reads \<^verbatim>\<open>args.host\<close>: in the first test when
  \<^verbatim>\<open>allow_remote\<close> is false, in the second otherwise. A \<^verbatim>\<open>dict\<close> has no such
  attribute, so a dictionary that reaches this code raises. For a namespace whose host is
  not the default, \<^verbatim>\<open>return RemotePod(args)\<close> evaluates the unbound name and raises
  \<^verbatim>\<open>NameError\<close>, after the reset of the host has been gone through.
\<close>

definition Pod_rest :: "string \<Rightarrow> bool \<Rightarrow> pod_args \<Rightarrow> 'x state \<Rightarrow> (error + handle) \<times> 'x state" where
  "Pod_rest default_host allow_remote args s =
     (case args of
        Dict d \<Rightarrow> (Inl AttributeError, s)
      | Namespace a \<Rightarrow>
          (let s1 = (if \<not> allow_remote \<and> host (heap s a) \<noteq> default_host
                     then warning (Pod_message default_host) (setattr_host a default_host s)
                     else s)
           in if host (heap s1 a) \<noteq> default_host then (Inl NameError, s1)
              else (Inr (BasePod a), s1)))"

definition Pod :: "string \<Rightarrow> ref \<Rightarrow> pod_args option \<Rightarrow> bool \<Rightarrow> 'x state \<Rightarrow> (error + handle) \<times> 'x state" where
  "Pod default_host parsed args allow_remote s =
     (let a = (case args of None \<Rightarrow> Namespace parsed | Some x \<Rightarrow> x)
      in case a of
           Dict d \<Rightarrow>
             (case Pod_dict default_host allow_remote d s of
                (Some h, s1) \<Rightarrow> (Inr h, s1)
              | (None, s1) \<Rightarrow> Pod_rest default_host allow_remote a s1)
         | Namespace r \<Rightarrow> Pod_rest default_host allow_remote a s)"

subsection \<open>Notions used to state the properties\<close>

text \<open>The namespaces of a dictionary in the order the loops visit them.\<close>

definition members :: "dict \<Rightarrow> ref list" where
  "members d = concat (map (\<lambda>k. if truthy_value k then as_list k else []) (map snd d))"

text \<open>The set \<^verbatim>\<open>hosts\<close> the loops of \<^verbatim>\<open>Pod\<close> leave behind.\<close>

definition collected_hosts :: "string \<Rightarrow> bool \<Rightarrow> dict \<Rightarrow> 'x state \<Rightarrow> string set" where
  "collected_hosts default_host allow_remote d s =
     snd (for_k default_host allow_remote (map snd d) (s, {}))"

text \<open>A logged message carries a host when the host occurs in its text.\<close>

definition carries :: "string \<Rightarrow> string \<Rightarrow> bool" where
  "carries msg h = sublist h msg"

text \<open>A state in which every object has the given host, no image and no warning is logged.\<close>

definition all_at :: "string \<Rightarrow> unit state" where
  "all_at h = \<lparr>heap = (\<lambda>_. \<lparr>host = h, image' = None, extra = ()\<rparr>), logged = []\<rparr>"

text \<open>\<^verbatim>\<open>args.image = img\<close> on the object at \<open>r\<close>, to build examples.\<close>

definition setattr_image :: "ref \<Rightarrow> string option \<Rightarrow> 'x state \<Rightarrow> 'x state" where
  "setattr_image r i s = s\<lparr>heap := (heap s)(r := (heap s r)\<lparr>image' := i\<rparr>)\<rparr>"

section \<open>Properties\<close>

lemma for_k_members:
  "for_k dh ar vs acc =
     for_kk dh ar (concat (map (\<lambda>k. if truthy_value k then as_list k else []) vs)) acc"
proof (induction vs arbitrary: acc)
  case Nil
  then show ?case by (cases acc) simp
next
  case (Cons v vs)
  have app: "for_kk dh ar (xs @ ys) a = for_kk dh ar ys (for_kk dh ar xs a)" for xs ys a
  proof (induction xs arbitrary: a)
    case Nil
    then show ?case by (cases a) simp
  next
    case (Cons x xs)
    then show ?case by (cases a) (simp add: Let_def)
  qed
  show ?case using Cons by (cases acc) (simp add: app)
qed

subsection \<open>The loops of Pod\<close>

lemma for_kk_heap:
  "heap (fst (for_kk dh ar rs (s, H))) =
     (\<lambda>q. if \<not> ar \<and> q \<in> set rs then (heap s q)\<lparr>host := dh\<rparr> else heap s q)"
proof (induction rs arbitrary: s H)
  case Nil
  then show ?case by simp
next
  case (Cons r rs)
  show ?case
    by (rule ext) (simp add: Cons.IH Let_def setattr_host_def warning_def)
qed

lemma for_kk_hosts:
  "snd (for_kk dh ar rs (s, H)) = H \<union> (\<lambda>q. if ar then host (heap s q) else dh) ` set rs"
proof (induction rs arbitrary: s H)
  case Nil
  then show ?case by simp
next
  case (Cons r rs)
  show ?case
    by (simp add: Cons.IH Let_def setattr_host_def warning_def)
qed

text \<open>Nothing is rewritten or logged when remote hosts are allowed or every member is local.\<close>

lemma for_kk_skip:
  "ar \<or> (\<forall>r\<in>set rs. host (heap s r) = dh) \<Longrightarrow>
     for_kk dh ar rs (s, H) = (s, H \<union> (\<lambda>q. host (heap s q)) ` set rs)"
proof (induction rs arbitrary: H)
  case Nil
  then show ?case by simp
next
  case (Cons r rs)
  then show ?case by (auto simp: Let_def)
qed

text \<open>One warning for each distinct member object whose host is not the default.\<close>

lemma for_kk_logged:
  "logged (fst (for_kk dh ar rs (s, H))) =
     logged s @ replicate (if ar then 0 else card {q \<in> set rs. host (heap s q) \<noteq> dh}) (Pod_message dh)"
proof (induction rs arbitrary: s H)
  case Nil
  then show ?case by simp
next
  case (Cons r rs)
  show ?case
  proof (cases "\<not> ar \<and> host (heap s r) \<noteq> dh")
    case True
    define s1 where "s1 = warning (Pod_message dh) (setattr_host r dh s)"
    have h1: "host (heap s1 q) \<noteq> dh \<longleftrightarrow> q \<noteq> r \<and> host (heap s q) \<noteq> dh" for q
      by (simp add: s1_def setattr_host_def warning_def)
    have l1: "logged s1 = logged s @ [Pod_message dh]"
      by (simp add: s1_def setattr_host_def warning_def)
    have eq: "{q \<in> set (r # rs). host (heap s q) \<noteq> dh} = insert r {q \<in> set rs. host (heap s1 q) \<noteq> dh}"
      using True h1 by auto
    have notin: "r \<notin> {q \<in> set rs. host (heap s1 q) \<noteq> dh}"
      using h1 by simp
    have c: "card {q \<in> set (r # rs). host (heap s q) \<noteq> dh} = Suc (card {q \<in> set rs. host (heap s1 q) \<noteq> dh})"
      unfolding eq using notin by (subst card_insert_disjoint) simp_all
    have step: "for_kk dh ar (r # rs) (s, H) = for_kk dh ar rs (s1, insert dh H)"
      using True by (simp add: Let_def s1_def setattr_host_def warning_def)
    show ?thesis
      unfolding step Cons.IH[of s1 "insert dh H"] l1 c using True
      by (simp add: replicate_append_same)
  next
    case False
    have step: "for_kk dh ar (r # rs) (s, H) = for_kk dh ar rs (s, insert (host (heap s r)) H)"
      using False by (auto simp: Let_def)
    have "{q \<in> set (r # rs). host (heap s q) \<noteq> dh} = {q \<in> set rs. host (heap s q) \<noteq> dh}" if "\<not> ar"
      using False that by auto
    then show ?thesis
      unfolding step Cons.IH[of s "insert (host (heap s r)) H"] by simp
  qed
qed

text \<open>Running the loops again on the state they leave changes nothing and collects the same hosts.\<close>

lemma for_kk_again:
  assumes "for_kk dh ar rs (s, {}) = (s1, H)"
  shows "for_kk dh ar rs (s1, {}) = (s1, H)"
proof -
  have hp: "heap s1 = (\<lambda>q. if \<not> ar \<and> q \<in> set rs then (heap s q)\<lparr>host := dh\<rparr> else heap s q)"
    using for_kk_heap[of dh ar rs s "{}"] assms by simp
  have H: "H = (\<lambda>q. if ar then host (heap s q) else dh) ` set rs"
    using for_kk_hosts[of dh ar rs s "{}"] assms by simp
  have loc: "ar \<or> (\<forall>r\<in>set rs. host (heap s1 r) = dh)"
    by (simp add: hp)
  have "(\<lambda>q. host (heap s1 q)) ` set rs = H"
    unfolding H by (rule image_cong) (simp_all add: hp)
  then show ?thesis
    using for_kk_skip[OF loc, of "{}"] by simp
qed

lemma Pod_dict_members:
  "Pod_dict dh ar d s =
     (let (s1, hosts) = for_kk dh ar (members d) (s, {})
      in if card hosts = 1 then
           (if dh \<in> hosts then (Some (MutablePod d), s1) else (Some (RemoteMutablePod d), s1))
         else (None, s1))"
  by (simp add: Pod_dict_def members_def for_k_members)

lemma collected_hosts_members:
  "collected_hosts dh ar d s = (\<lambda>q. if ar then host (heap s q) else dh) ` set (members d)"
  by (simp add: collected_hosts_def members_def for_k_members for_kk_hosts)

text \<open>
  A dictionary whose loops do not collect exactly one host reaches the code that reads
  \<^verbatim>\<open>args.host\<close>, which raises.
\<close>

lemma Pod_not_one_host:
  assumes "card (collected_hosts dh ar d s) \<noteq> 1"
  shows "fst (Pod dh p (Some (Dict d)) ar s) = Inl AttributeError"
proof -
  obtain s1 H where r: "for_kk dh ar (members d) (s, {}) = (s1, H)"
    by (cases "for_kk dh ar (members d) (s, {})")
  have "H = collected_hosts dh ar d s"
    using r by (simp add: collected_hosts_def members_def for_k_members)
  with assms have "card H \<noteq> 1" by simp
  then show ?thesis
    by (simp add: Pod_def Pod_dict_members r Pod_rest_def)
qed

lemma Pod_rest_again:
  "Pod_rest dh ar a (snd (Pod_rest dh ar a s)) = Pod_rest dh ar a s"
  by (auto simp: Pod_rest_def Let_def setattr_host_def warning_def split: pod_args.splits)

lemma Pod_dict_again:
  "Pod_dict dh ar d (snd (Pod_dict dh ar d s)) = Pod_dict dh ar d s"
proof -
  obtain s1 H where r: "for_kk dh ar (members d) (s, {}) = (s1, H)"
    by (cases "for_kk dh ar (members d) (s, {})")
  have r1: "for_kk dh ar (members d) (s1, {}) = (s1, H)"
    by (rule for_kk_again[OF r])
  have "snd (Pod_dict dh ar d s) = s1"
    by (simp add: Pod_dict_members r)
  then show ?thesis
    by (simp add: Pod_dict_members r r1)
qed

lemma Pod_heap:
  "heap (snd (Pod dh p a ar s)) q = heap s q \<or>
   (\<not> ar \<and> host (heap s q) \<noteq> dh \<and> heap (snd (Pod dh p a ar s)) q = (heap s q)\<lparr>host := dh\<rparr>)"
proof (cases "case a of None \<Rightarrow> Namespace p | Some x \<Rightarrow> x")
  case (Namespace r)
  then show ?thesis
    by (auto simp: Pod_def Pod_rest_def Let_def setattr_host_def warning_def)
next
  case (Dict d)
  obtain s1 H where r: "for_kk dh ar (members d) (s, {}) = (s1, H)"
    by (cases "for_kk dh ar (members d) (s, {})")
  have hp: "heap s1 = (\<lambda>q. if \<not> ar \<and> q \<in> set (members d) then (heap s q)\<lparr>host := dh\<rparr> else heap s q)"
    using for_kk_heap[of dh ar "members d" s "{}"] r by simp
  have s1: "snd (Pod dh p a ar s) = s1"
    using Dict by (simp add: Pod_def Pod_dict_members r Pod_rest_def)
  show ?thesis
  proof (cases "host (heap s q) = dh")
    case True
    then have "(heap s q)\<lparr>host := dh\<rparr> = heap s q" by auto
    then show ?thesis by (simp add: s1 hp)
  next
    case False
    then show ?thesis by (simp add: s1 hp)
  qed
qed

lemma Pod_Dict:
  "Pod dh p (Some (Dict d)) ar s =
     (case fst (Pod_dict dh ar d s) of Some h \<Rightarrow> Inr h | None \<Rightarrow> Inl AttributeError,
      snd (Pod_dict dh ar d s))"
  by (cases "Pod_dict dh ar d s") (simp add: Pod_def Pod_rest_def split: option.splits)

lemma Pod_again:
  "Pod dh p a ar (snd (Pod dh p a ar s)) = Pod dh p a ar s"
proof (cases "case a of None \<Rightarrow> Namespace p | Some x \<Rightarrow> x")
  case (Namespace r)
  then show ?thesis
    using Pod_rest_again[of dh ar "Namespace r" s] by (simp add: Pod_def)
next
  case (Dict d)
  then have a: "a = Some (Dict d)"
    by (cases a) simp_all
  show ?thesis
    unfolding a Pod_Dict by (simp add: Pod_dict_again)
qed

lemma Pea_again:
  "Pea dh p a ar (snd (Pea dh p a ar s)) = Pea dh p a ar s"
  by (auto simp: Pea_def Let_def setattr_host_def warning_def split: option.splits)

lemma Pea_heap:
  "heap (snd (Pea dh p a ar s)) q = heap s q \<or>
   (\<not> ar \<and> host (heap s q) \<noteq> dh \<and> heap (snd (Pea dh p a ar s)) q = (heap s q)\<lparr>host := dh\<rparr>)"
  by (auto simp: Pea_def Let_def setattr_host_def warning_def split: option.splits)

text \<open>
  A single namespace whose host is not the default, with remote hosts allowed, reaches
  \<^verbatim>\<open>return RemotePod(args)\<close>: \<^verbatim>\<open>Pod\<close> raises \<^verbatim>\<open>NameError\<close>
  and changes nothing.
\<close>

lemma Pod_namespace_remote_raises:
  "ar \<Longrightarrow> host (heap s r) \<noteq> dh \<Longrightarrow>
     Pod dh p (Some (Namespace r)) ar s = (Inl NameError, s)"
  by (simp add: Pod_def Pod_rest_def)

section \<open>The claims\<close>

subsection \<open>Groups\<close>

text \<open>
  C1. A group whose members span two or more hosts is announced to give a
  \<^verbatim>\<open>RemoteMutablePod\<close>. It never does. Two hosts can only be collected when
  \<^verbatim>\<open>allow_remote\<close> is true; then the dictionary branch returns nothing, the code
  after it reads \<^verbatim>\<open>args.host\<close> from the dictionary, and \<^verbatim>\<open>Pod\<close> raises
  \<^verbatim>\<open>AttributeError\<close>, having changed nothing: none of the four pods its
  documentation lists is built.
\<close>

theorem Pod_several_hosts_raises:
  assumes "2 \<le> card (collected_hosts dh ar d s)"
  shows "ar \<and> Pod dh p (Some (Dict d)) ar s = (Inl AttributeError, s)"
proof -
  have ar: ar
  proof (rule ccontr)
    assume "\<not> ar"
    then have "collected_hosts dh ar d s \<subseteq> {dh}"
      by (auto simp: collected_hosts_members)
    then have "card (collected_hosts dh ar d s) \<le> card {dh}"
      by (intro card_mono) simp_all
    with assms show False by simp
  qed
  have "fst (Pod dh p (Some (Dict d)) ar s) = Inl AttributeError"
    using Pod_not_one_host[of dh ar d s p] assms by simp
  moreover have "snd (Pod dh p (Some (Dict d)) ar s) = s"
    using ar for_kk_skip[of ar "members d" s dh "{}"]
    by (simp add: Pod_Dict Pod_dict_members)
  ultimately show ?thesis
    using ar by (simp add: prod_eq_iff)
qed

text \<open>
  The dictionary with an encoder at \<^verbatim>\<open>10.0.0.2\<close> and an indexer at the default host
  \<^verbatim>\<open>0.0.0.0\<close> is such a group.
\<close>

theorem Pod_several_hosts_raises_witness:
  "collected_hosts ''0.0.0.0'' True [(''encoder'', PyList [0]), (''indexer'', PyList [1])]
     (setattr_host 0 ''10.0.0.2'' (all_at ''0.0.0.0'')) = {''0.0.0.0'', ''10.0.0.2''} \<and>
   Pod ''0.0.0.0'' 9 (Some (Dict [(''encoder'', PyList [0]), (''indexer'', PyList [1])])) True
     (setattr_host 0 ''10.0.0.2'' (all_at ''0.0.0.0'')) =
     (Inl AttributeError, setattr_host 0 ''10.0.0.2'' (all_at ''0.0.0.0''))"
proof -
  have c: "collected_hosts ''0.0.0.0'' True [(''encoder'', PyList [0]), (''indexer'', PyList [1])]
     (setattr_host 0 ''10.0.0.2'' (all_at ''0.0.0.0'')) = {''0.0.0.0'', ''10.0.0.2''}"
    by (simp add: collected_hosts_def setattr_host_def all_at_def)
  have "2 \<le> card (collected_hosts ''0.0.0.0'' True
      [(''encoder'', PyList [0]), (''indexer'', PyList [1])]
      (setattr_host 0 ''10.0.0.2'' (all_at ''0.0.0.0'')))"
    unfolding c by simp
  from Pod_several_hosts_raises[OF this, of 9] c show ?thesis
    by simp
qed

text \<open>
  C8. A group whose members all carry one host that is not the default, with remote hosts
  allowed: \<^verbatim>\<open>Pod\<close> returns one \<^verbatim>\<open>RemoteMutablePod\<close> holding the whole
  dictionary, and neither rewrites a member nor logs anything.
\<close>

theorem Pod_single_remote_host:
  assumes "members d \<noteq> []"
    and "\<forall>r\<in>set (members d). host (heap s r) = h"
    and "h \<noteq> dh"
  shows "Pod dh p (Some (Dict d)) True s = (Inr (RemoteMutablePod d), s)"
proof -
  have "(\<lambda>q. host (heap s q)) ` set (members d) = {h}"
    using assms(1,2) by (cases "members d") auto
  then have "for_kk dh True (members d) (s, {}) = (s, {h})"
    using for_kk_skip[of True "members d" s dh "{}"] by simp
  then show ?thesis
    using assms(3) by (simp add: Pod_Dict Pod_dict_members)
qed

theorem Pod_single_remote_host_witness:
  "members [(''encoder'', PyList [0, 1]), (''indexer'', PyList [2])] = [0, 1, 2] \<and>
   Pod ''0.0.0.0'' 9 (Some (Dict [(''encoder'', PyList [0, 1]), (''indexer'', PyList [2])])) True
     (all_at ''10.0.0.2'') =
     (Inr (RemoteMutablePod [(''encoder'', PyList [0, 1]), (''indexer'', PyList [2])]),
      all_at ''10.0.0.2'')"
  using Pod_single_remote_host[of "[(''encoder'', PyList [0, 1]), (''indexer'', PyList [2])]"
      "all_at ''10.0.0.2''" "''10.0.0.2''" "''0.0.0.0''" 9]
  by (simp add: members_def all_at_def)

text \<open>
  C4. A group without members (an empty dictionary, or only \<^verbatim>\<open>None\<close> and empty
  lists as values) is announced to fail with a configuration error that tells the caller
  to supply a member. \<^verbatim>\<open>Pod\<close> has no such check: the loops collect no host, the
  dictionary branch returns nothing, and the code after it reads \<^verbatim>\<open>args.host\<close>
  from the dictionary. The call ends in the \<^verbatim>\<open>AttributeError\<close> of that attribute
  access, with the state as before the call: the same missed case as for a group with
  several hosts.
\<close>

theorem Pod_no_members_raises:
  assumes "members d = []"
  shows "Pod dh p (Some (Dict d)) ar s = (Inl AttributeError, s)"
  using assms by (simp add: Pod_Dict Pod_dict_members)

theorem Pod_no_members_raises_witness:
  "members [] = [] \<and>
   Pod ''0.0.0.0'' 9 (Some (Dict [])) True (all_at ''0.0.0.0'') =
     (Inl AttributeError, all_at ''0.0.0.0'') \<and>
   members [(''head'', PyNone), (''peas'', PyList [])] = [] \<and>
   Pod ''0.0.0.0'' 9 (Some (Dict [(''head'', PyNone), (''peas'', PyList [])])) False
     (all_at ''10.0.0.2'') = (Inl AttributeError, all_at ''10.0.0.2'')"
  using Pod_no_members_raises[of "[]" "''0.0.0.0''" 9 True "all_at ''0.0.0.0''"]
    Pod_no_members_raises[of "[(''head'', PyNone), (''peas'', PyList [])]"
      "''0.0.0.0''" 9 False "all_at ''10.0.0.2''"]
  by (simp add: members_def)

text \<open>
  C2, as stated: on a single namespace \<^verbatim>\<open>Pod\<close> would decide as \<^verbatim>\<open>Pea\<close> does, so
  that a local namespace with an image gives the containerized kind. For the default host
  and the image \<^verbatim>\<open>img:v1\<close>, \<^verbatim>\<open>Pea\<close> returns a \<^verbatim>\<open>ContainerPea\<close> but
  \<^verbatim>\<open>Pod\<close> a \<^verbatim>\<open>BasePod\<close>: it never reads \<^verbatim>\<open>image\<close>.
\<close>

theorem Pod_namespace_ignores_image:
  "fst (Pea ''0.0.0.0'' 9 (Some 0) True (setattr_image 0 (Some ''img:v1'') (all_at ''0.0.0.0'')))
     = ContainerPea 0 \<and>
   fst (Pod ''0.0.0.0'' 9 (Some (Namespace 0)) True
          (setattr_image 0 (Some ''img:v1'') (all_at ''0.0.0.0''))) = Inr (BasePod 0)"
  by (simp add: Pea_def Pod_def Pod_rest_def setattr_image_def all_at_def)

text \<open>
  C2, as the code has it. On a single namespace \<^verbatim>\<open>Pod\<close> resets the host exactly as
  \<^verbatim>\<open>Pea\<close> does. When the host is the default after the reset, it returns a
  \<^verbatim>\<open>BasePod\<close>, with or without an image, where \<^verbatim>\<open>Pea\<close> returns a
  \<^verbatim>\<open>ContainerPea\<close> or a \<^verbatim>\<open>BasePea\<close> according to the image.
\<close>

theorem Pod_namespace_local:
  assumes "host (heap (snd (Pea dh p (Some r) ar s)) r) = dh"
  shows "fst (Pod dh p (Some (Namespace r)) ar s) = Inr (BasePod r) \<and>
         heap (snd (Pod dh p (Some (Namespace r)) ar s)) = heap (snd (Pea dh p (Some r) ar s)) \<and>
         fst (Pea dh p (Some r) ar s) =
           (if truthy (image' (heap s r)) then ContainerPea r else BasePea r)"
  using assms
  by (auto simp: Pod_def Pod_rest_def Pea_def Let_def setattr_host_def warning_def
      split: if_splits)

theorem Pod_namespace_local_witness:
  "fst (Pod ''0.0.0.0'' 9 (Some (Namespace 0)) True
          (setattr_image 0 (Some ''img:v1'') (all_at ''0.0.0.0''))) = Inr (BasePod 0) \<and>
   fst (Pea ''0.0.0.0'' 9 (Some 0) True (setattr_image 0 (Some ''img:v1'') (all_at ''0.0.0.0'')))
     = ContainerPea 0 \<and>
   fst (Pod ''0.0.0.0'' 9 (Some (Namespace 0)) False (all_at ''10.0.0.2'')) = Inr (BasePod 0) \<and>
   fst (Pea ''0.0.0.0'' 9 (Some 0) False (all_at ''10.0.0.2'')) = BasePea 0"
proof -
  have a: "host (heap (snd (Pea ''0.0.0.0'' 9 (Some 0) True
      (setattr_image 0 (Some ''img:v1'') (all_at ''0.0.0.0'')))) 0) = ''0.0.0.0''"
    by (simp add: Pea_def setattr_image_def all_at_def)
  have b: "host (heap (snd (Pea ''0.0.0.0'' 9 (Some 0) False (all_at ''10.0.0.2''))) 0) = ''0.0.0.0''"
    by (simp add: Pea_def setattr_host_def warning_def all_at_def)
  show ?thesis
    using Pod_namespace_local[OF a] Pod_namespace_local[OF b]
    by (simp add: setattr_image_def all_at_def)
qed

subsection \<open>Units\<close>

text \<open>
  C5. When the host of the namespace is not the default after the reset, \<^verbatim>\<open>Pea\<close>
  returns a \<^verbatim>\<open>RemotePea\<close> on that namespace and leaves the state as it was, so the
  host is the one given; \<^verbatim>\<open>image\<close> is not looked at.
\<close>

theorem Pea_remote:
  "host (heap (snd (Pea dh p (Some r) ar s)) r) \<noteq> dh \<Longrightarrow>
     Pea dh p (Some r) ar s = (RemotePea r, s)"
  by (auto simp: Pea_def Let_def setattr_host_def warning_def split: if_splits)

theorem Pea_remote_witness:
  "host (heap (snd (Pea ''0.0.0.0'' 9 (Some 0) True
           (setattr_image 0 (Some ''img:v1'') (all_at ''10.0.0.2'')))) 0) \<noteq> ''0.0.0.0'' \<and>
   Pea ''0.0.0.0'' 9 (Some 0) True (setattr_image 0 (Some ''img:v1'') (all_at ''10.0.0.2'')) =
     (RemotePea 0, setattr_image 0 (Some ''img:v1'') (all_at ''10.0.0.2'')) \<and>
   host (heap (setattr_image 0 (Some ''img:v1'') (all_at ''10.0.0.2'')) 0) = ''10.0.0.2''"
  using Pea_remote[of "''0.0.0.0''" 9 0 True "setattr_image 0 (Some ''img:v1'') (all_at ''10.0.0.2'')"]
  by (simp add: Pea_def setattr_image_def all_at_def)

text \<open>
  C6. When the host of the namespace is the default after the reset, \<^verbatim>\<open>Pea\<close>
  returns a \<^verbatim>\<open>ContainerPea\<close> if \<^verbatim>\<open>image\<close> is a non-empty string and a
  \<^verbatim>\<open>BasePea\<close> if \<^verbatim>\<open>image\<close> is \<^verbatim>\<open>None\<close>.
\<close>

theorem Pea_local:
  "host (heap (snd (Pea dh p (Some r) ar s)) r) = dh \<Longrightarrow>
     (image' (heap s r) = Some img \<and> img \<noteq> [] \<longrightarrow> fst (Pea dh p (Some r) ar s) = ContainerPea r) \<and>
     (image' (heap s r) = None \<longrightarrow> fst (Pea dh p (Some r) ar s) = BasePea r)"
  by (auto simp: Pea_def Let_def setattr_host_def warning_def split: if_splits)

theorem Pea_local_witness:
  "fst (Pea ''0.0.0.0'' 9 (Some 0) False (setattr_image 0 (Some ''img:v1'') (all_at ''10.0.0.2'')))
     = ContainerPea 0 \<and>
   fst (Pea ''0.0.0.0'' 9 (Some 0) True (all_at ''0.0.0.0'')) = BasePea 0"
  using Pea_local[of "''0.0.0.0''" 9 0 False
      "setattr_image 0 (Some ''img:v1'') (all_at ''10.0.0.2'')" "''img:v1''"]
    Pea_local[of "''0.0.0.0''" 9 0 True "all_at ''0.0.0.0''" "''img:v1''"]
  by (simp add: Pea_def setattr_image_def setattr_host_def warning_def all_at_def)

text \<open>
  C7. \<^verbatim>\<open>Pea\<close> with \<^verbatim>\<open>allow_remote=False\<close> returns the handle, and leaves the
  objects, that \<^verbatim>\<open>Pea\<close> with \<^verbatim>\<open>allow_remote=True\<close> does once the host of the
  namespace has been set to the default.
\<close>

theorem Pea_gate_is_prelocalizing:
  "fst (Pea dh p (Some r) False s) = fst (Pea dh p (Some r) True (setattr_host r dh s)) \<and>
   heap (snd (Pea dh p (Some r) False s)) =
     heap (snd (Pea dh p (Some r) True (setattr_host r dh s)))"
  by (auto simp: Pea_def Let_def setattr_host_def warning_def)

subsection \<open>The reset of the host\<close>

text \<open>
  C3, as stated: the warning would carry the host that was replaced. For the host
  \<^verbatim>\<open>203.0.113.5\<close>, \<^verbatim>\<open>Pea\<close> with \<^verbatim>\<open>allow_remote=False\<close> returns a
  \<^verbatim>\<open>BasePea\<close> and logs one warning, whose text names the default host only.
\<close>

theorem Pea_warning_omits_original_host:
  "fst (Pea ''0.0.0.0'' 9 (Some 0) False (all_at ''203.0.113.5'')) = BasePea 0 \<and>
   logged (snd (Pea ''0.0.0.0'' 9 (Some 0) False (all_at ''203.0.113.5''))) =
     [''setting host to 0.0.0.0 as allow_remote set to False''] \<and>
   \<not> carries ''setting host to 0.0.0.0 as allow_remote set to False'' ''203.0.113.5''"
  by (simp add: Pea_def Pea_message_def setattr_host_def warning_def all_at_def carries_def
      sublist_Cons_right prefix_Cons)

text \<open>
  C3, as the code has it. With \<^verbatim>\<open>allow_remote=False\<close>, a namespace whose host is not
  the default has its host set to the default, and exactly one warning is logged for it,
  the fixed text with the default host: by \<^verbatim>\<open>Pea\<close>, by \<^verbatim>\<open>Pod\<close> on the
  namespace, and by \<^verbatim>\<open>Pod\<close> on a dictionary, which logs one warning for each member
  object that had another host.
\<close>

theorem reset_warns_once:
  assumes "host (heap s r) \<noteq> dh"
  shows "host (heap (snd (Pea dh p (Some r) False s)) r) = dh \<and>
         logged (snd (Pea dh p (Some r) False s)) = logged s @ [Pea_message dh] \<and>
         host (heap (snd (Pod dh p (Some (Namespace r)) False s)) r) = dh \<and>
         logged (snd (Pod dh p (Some (Namespace r)) False s)) = logged s @ [Pod_message dh] \<and>
         (r \<in> set (members d) \<longrightarrow>
            host (heap (snd (Pod dh p (Some (Dict d)) False s)) r) = dh \<and>
            logged (snd (Pod dh p (Some (Dict d)) False s)) =
              logged s @ replicate (card {q \<in> set (members d). host (heap s q) \<noteq> dh}) (Pod_message dh))"
proof -
  have pea: "snd (Pea dh p (Some r) False s) = warning (Pea_message dh) (setattr_host r dh s)"
    using assms by (simp add: Pea_def Let_def setattr_host_def warning_def)
  have pod: "snd (Pod dh p (Some (Namespace r)) False s) =
      warning (Pod_message dh) (setattr_host r dh s)"
    using assms by (simp add: Pod_def Pod_rest_def Let_def setattr_host_def warning_def)
  have dict: "snd (Pod dh p (Some (Dict d)) False s) = fst (for_kk dh False (members d) (s, {}))"
    by (simp add: Pod_Dict Pod_dict_members split: prod.splits)
  show ?thesis
    unfolding pea pod dict for_kk_heap for_kk_logged
    by (simp add: setattr_host_def warning_def)
qed

theorem reset_warns_once_witness:
  "host (heap (snd (Pea ''0.0.0.0'' 9 (Some 0) False (all_at ''203.0.113.5''))) 0) = ''0.0.0.0'' \<and>
   logged (snd (Pea ''0.0.0.0'' 9 (Some 0) False (all_at ''203.0.113.5''))) =
     [Pea_message ''0.0.0.0''] \<and>
   host (heap (snd (Pod ''0.0.0.0'' 9 (Some (Namespace 0)) False (all_at ''203.0.113.5''))) 0) =
     ''0.0.0.0'' \<and>
   logged (snd (Pod ''0.0.0.0'' 9 (Some (Namespace 0)) False (all_at ''203.0.113.5''))) =
     [Pod_message ''0.0.0.0''] \<and>
   logged (snd (Pod ''0.0.0.0'' 9 (Some (Dict [(''head'', Obj 0), (''peas'', PyList [0])])) False
     (all_at ''203.0.113.5''))) = [Pod_message ''0.0.0.0'']"
proof -
  have h: "host (heap (all_at ''203.0.113.5'') 0) \<noteq> ''0.0.0.0''"
    by (simp add: all_at_def)
  have m: "members [(''head'', Obj 0), (''peas'', PyList [0])] = [0, 0]"
    by (simp add: members_def)
  have c: "{q \<in> set [0, 0 :: nat]. host (heap (all_at ''203.0.113.5'') q) \<noteq> ''0.0.0.0''} = {0}"
    by (auto simp: all_at_def)
  show ?thesis
    using reset_warns_once[OF h, of 9 "[(''head'', Obj 0), (''peas'', PyList [0])]"]
    unfolding m c by (simp add: all_at_def)
qed

text \<open>
  C9. The reset is idempotent: \<^verbatim>\<open>Pea\<close>, and \<^verbatim>\<open>Pod\<close> on a namespace or a
  dictionary, called again on the state the first call left, return the same result and
  change nothing more, whatever \<^verbatim>\<open>allow_remote\<close> is.
\<close>

theorem reset_idempotent:
  "Pea dh p a ar (snd (Pea dh p a ar s)) = Pea dh p a ar s \<and>
   Pod dh p b ar (snd (Pod dh p b ar s)) = Pod dh p b ar s"
  by (simp add: Pea_again Pod_again)

text \<open>
  C10. \<^verbatim>\<open>Pea\<close> and \<^verbatim>\<open>Pod\<close> change no attribute of any object but
  \<^verbatim>\<open>host\<close>, and do not change \<^verbatim>\<open>host\<close> either when \<^verbatim>\<open>allow_remote\<close> is
  true or the host is the default already.
\<close>

theorem reset_changes_host_only:
  "image' (heap (snd (Pea dh p a ar s)) q) = image' (heap s q) \<and>
   extra (heap (snd (Pea dh p a ar s)) q) = extra (heap s q) \<and>
   (ar \<or> host (heap s q) = dh \<longrightarrow> host (heap (snd (Pea dh p a ar s)) q) = host (heap s q)) \<and>
   image' (heap (snd (Pod dh p b ar s)) q) = image' (heap s q) \<and>
   extra (heap (snd (Pod dh p b ar s)) q) = extra (heap s q) \<and>
   (ar \<or> host (heap s q) = dh \<longrightarrow> host (heap (snd (Pod dh p b ar s)) q) = host (heap s q))"
  using Pea_heap[of dh p a ar s q] Pod_heap[of dh p b ar s q] by auto

theorem reset_changes_host_only_witness:
  "image' (heap (snd (Pea ''0.0.0.0'' 9 (Some 0) False
       (setattr_image 0 (Some ''img:v1'') (all_at ''10.0.0.2'')))) 0) = Some ''img:v1'' \<and>
   host (heap (snd (Pea ''0.0.0.0'' 9 (Some 0) True (all_at ''10.0.0.2''))) 0) = ''10.0.0.2'' \<and>
   host (heap (snd (Pod ''0.0.0.0'' 9 (Some (Dict [(''peas'', PyList [0, 1])])) True
       (all_at ''10.0.0.2''))) 1) = ''10.0.0.2''"
  using reset_changes_host_only[of "''0.0.0.0''" 9 "Some 0" False
      "setattr_image 0 (Some ''img:v1'') (all_at ''10.0.0.2'')" 0 "Some (Namespace 0)"]
    reset_changes_host_only[of "''0.0.0.0''" 9 "Some 0" True "all_at ''10.0.0.2''" 0
      "Some (Namespace 0)"]
    reset_changes_host_only[of "''0.0.0.0''" 9 "Some 0" True "all_at ''10.0.0.2''" 1
      "Some (Dict [(''peas'', PyList [0, 1])])"]
  by (simp add: setattr_image_def all_at_def)

end
